theory Spec2Isabelle
  imports Main
begin

section \<open>The source file\<close>

text \<open>
  The repository consists of one Python file,
  \<^verbatim>\<open>src/examples/defi-metrics/cocoindex/flow.py\<close>. It defines no function; what
  there is to embed is the file itself. \<open>flow_py_lines\<close> holds its 38 physical lines,
  character for character (a double quote is written with a backslash in front), and
  \<open>flow_py\<close> is the text of the file: the lines separated by line feeds, the last
  line without one, as on disk.
\<close>

definition LF :: char where
  "LF = CHR 0x0A"

definition DQ :: char where
  "DQ = CHR 0x22"

definition BACKSLASH :: char where
  "BACKSLASH = CHR 0x5C"

definition flow_py_lines :: "string list" where
  "flow_py_lines = [
    ''\"\"\"Placeholder CocoIndex flow.'',
    '''',
    ''This file is intentionally a sketch, because w3rt's CI/runtime is TS/Node.'',
    ''Run CocoIndex as a sidecar to populate Postgres table `defi_metrics`.'',
    '''',
    ''You can implement sources per protocol (Solend/Kamino/Meteora/Drift/Jito/Marinade/Jupiter)'',
    ''then export normalized rows.'',
    '''',
    ''Docs: https://cocoindex.io/docs'',
    ''\"\"\"'',
    '''',
    ''# Example outline (pseudo-code):'',
    ''#'',
    ''# import cocoindex'',
    ''#'',
    ''# @cocoindex.flow_def(name=\"SolanaDefiMetrics\")'',
    ''# def flow(flow_builder: cocoindex.FlowBuilder, scope: cocoindex.DataScope):'',
    ''#     scope[\"raw\"] = flow_builder.add_source(cocoindex.sources.HttpJson(urls=[...]))'',
    ''#     metrics = scope.add_collector()'',
    ''#     with scope[\"raw\"].row() as row:'',
    ''#         # normalize to our schema'',
    ''#         metrics.collect('',
    ''#             chain=\"solana\",'',
    ''#             protocol=row[\"protocol\"],'',
    ''#             market=row[\"market\"],'',
    ''#             tvl_usd=row[\"tvl_usd\"],'',
    ''#             liquidity_usd=row[\"liquidity_usd\"],'',
    ''#             price_vol_5m_bps=row[\"price_vol_5m_bps\"],'',
    ''#             borrow_utilization_bps=row[\"borrow_utilization_bps\"],'',
    ''#             source_url=row[\"source_url\"],'',
    ''#             updated_at=row[\"updated_at\"],'',
    ''#         )'',
    ''#'',
    ''#     metrics.export('',
    ''#         \"defi_metrics\",'',
    ''#         cocoindex.targets.Postgres(),'',
    ''#         primary_key_fields=[\"chain\", \"protocol\", \"market\"],'',
    ''#     )''
  ]"

fun join_lines :: "string list \<Rightarrow> string" where
  "join_lines [] = []"
| "join_lines [l] = l"
| "join_lines (l # m # ls) = l @ LF # join_lines (m # ls)"

definition flow_py :: string where
  "flow_py = join_lines flow_py_lines"

text \<open>
  The text of the docstring, lines 1 to 10 of the file between the two triple quotes: the
  value Python binds to \<open>__doc__\<close>. It ends with the line feed that precedes the closing
  quotes.
\<close>

definition placeholder_doc :: string where
  "placeholder_doc = join_lines [
    ''Placeholder CocoIndex flow.'',
    '''',
    ''This file is intentionally a sketch, because w3rt's CI/runtime is TS/Node.'',
    ''Run CocoIndex as a sidecar to populate Postgres table `defi_metrics`.'',
    '''',
    ''You can implement sources per protocol (Solend/Kamino/Meteora/Drift/Jito/Marinade/Jupiter)'',
    ''then export normalized rows.'',
    '''',
    ''Docs: https://cocoindex.io/docs'',
    ''''
  ]"

section \<open>Lexical analysis\<close>

text \<open>
  A character-level model of Python's tokenizer for the part of the language the file can
  be read in: names, one-line and triple-quoted double-quoted strings without escapes,
  comments, brackets, single-character operators, blank lines, and logical lines joined
  inside brackets. Everything else (backslashes, single-quoted or prefixed strings,
  numbers, indented blocks, other characters) makes the tokenizer return \<open>None\<close>:
  the text is then outside the model, which says nothing about it.

  As in Python's \<open>tokenize\<close>, \<open>NEWLINE\<close> ends a logical line, \<open>NL\<close> ends a line that holds
  no statement (blank, comment only, or inside brackets), and comments are tokens that the
  parser later drops. Every token carries the physical lines on which it starts and ends.
\<close>

datatype token =
    NAME string
  | STRING string
  | OP char
  | COMMENT string
  | NEWLINE
  | NL
  | ENDMARKER

datatype lex_mode =
    LineStart bool
  | Mid
  | InName string
  | InComment string
  | Quote1
  | Quote2
  | InStr1 string
  | InStr3 string nat

text \<open>
  \<open>LineStart w\<close>: at the start of a physical line, \<open>w\<close> telling whether white space was
  seen; \<open>Mid\<close>: between two tokens of a line; \<open>Quote1\<close>, \<open>Quote2\<close>: after one or two
  opening quotes; \<open>InStr3 acc q\<close>: inside a triple-quoted string, after \<open>q\<close> quotes in a
  row. Accumulators hold the characters read so far, last one first.
\<close>

record lexer =
  mode :: lex_mode
  line :: nat
  tstart :: nat
  depth :: nat
  logical :: bool
  out :: "(nat \<times> nat \<times> token) list"

definition lexer0 :: lexer where
  "lexer0 = \<lparr>mode = LineStart False, line = 1, tstart = 1, depth = 0,
     logical = False, out = []\<rparr>"

definition is_space :: "char \<Rightarrow> bool" where
  "is_space c = (c = CHR '' '' \<or> c = CHR 0x09 \<or> c = CHR 0x0C)"

definition is_name_start :: "char \<Rightarrow> bool" where
  "is_name_start c =
     (c \<in> set ''abcdefghijklmnopqrstuvwxyzABCDEFGHIJKLMNOPQRSTUVWXYZ_'')"

definition is_name_char :: "char \<Rightarrow> bool" where
  "is_name_char c = (is_name_start c \<or> c \<in> set ''0123456789'')"

definition is_open :: "char \<Rightarrow> bool" where
  "is_open c = (c \<in> set ''([{'')"

definition is_close :: "char \<Rightarrow> bool" where
  "is_close c = (c \<in> set '')]}'')"

definition is_op :: "char \<Rightarrow> bool" where
  "is_op c = (c \<in> set ''.,:;=+-*/%<>&|^~@'')"

definition emit :: "token \<Rightarrow> lexer \<Rightarrow> lexer" where
  "emit t s = s\<lparr>out := (tstart s, line s, t) # out s\<rparr>"

text \<open>The end of a physical line, met between two tokens.\<close>

definition end_line :: "lexer \<Rightarrow> lexer" where
  "end_line s =
     (emit (if logical s \<and> depth s = 0 then NEWLINE else NL) (s\<lparr>tstart := line s\<rparr>))
       \<lparr>mode := LineStart False, line := Suc (line s),
        logical := (logical s \<and> depth s \<noteq> 0)\<rparr>"

text \<open>A character other than a line feed, met between two tokens.\<close>

definition start_token :: "char \<Rightarrow> lexer \<Rightarrow> lexer option" where
  "start_token c s =
     (if is_space c then
        Some (s\<lparr>mode := (case mode s of LineStart w \<Rightarrow> LineStart True | _ \<Rightarrow> Mid)\<rparr>)
      else if c = CHR ''#'' then
        Some (s\<lparr>mode := InComment [c], tstart := line s\<rparr>)
      else if mode s = LineStart True \<and> depth s = 0 then None
      else if c = DQ then
        Some (s\<lparr>mode := Quote1, tstart := line s, logical := True\<rparr>)
      else if is_name_start c then
        Some (s\<lparr>mode := InName [c], tstart := line s, logical := True\<rparr>)
      else if is_open c then
        Some (emit (OP c) (s\<lparr>tstart := line s\<rparr>)
                \<lparr>mode := Mid, logical := True, depth := Suc (depth s)\<rparr>)
      else if is_close c then
        (if depth s = 0 then None
         else Some (emit (OP c) (s\<lparr>tstart := line s\<rparr>)
                \<lparr>mode := Mid, logical := True, depth := depth s - 1\<rparr>))
      else if is_op c then
        Some (emit (OP c) (s\<lparr>tstart := line s\<rparr>) \<lparr>mode := Mid, logical := True\<rparr>)
      else None)"

definition between :: "char \<Rightarrow> lexer \<Rightarrow> lexer option" where
  "between c s = (if c = LF then Some (end_line s) else start_token c s)"

definition lex_step :: "lexer \<Rightarrow> char \<Rightarrow> lexer option" where
  "lex_step s c =
     (case mode s of
        LineStart w \<Rightarrow> between c s
      | Mid \<Rightarrow> between c s
      | InName acc \<Rightarrow>
          if is_name_char c then Some (s\<lparr>mode := InName (c # acc)\<rparr>)
          else if c = DQ then None
          else between c (emit (NAME (rev acc)) s \<lparr>mode := Mid\<rparr>)
      | InComment acc \<Rightarrow>
          if c = LF then Some (end_line (emit (COMMENT (rev acc)) s))
          else Some (s\<lparr>mode := InComment (c # acc)\<rparr>)
      | Quote1 \<Rightarrow>
          if c = DQ then Some (s\<lparr>mode := Quote2\<rparr>)
          else if c = LF \<or> c = BACKSLASH then None
          else Some (s\<lparr>mode := InStr1 [c]\<rparr>)
      | Quote2 \<Rightarrow>
          if c = DQ then Some (s\<lparr>mode := InStr3 [] 0\<rparr>)
          else between c (emit (STRING []) s \<lparr>mode := Mid\<rparr>)
      | InStr1 acc \<Rightarrow>
          if c = DQ then Some (emit (STRING (rev acc)) s \<lparr>mode := Mid\<rparr>)
          else if c = LF \<or> c = BACKSLASH then None
          else Some (s\<lparr>mode := InStr1 (c # acc)\<rparr>)
      | InStr3 acc q \<Rightarrow>
          if c = DQ then
            (if q = 2 then Some (emit (STRING (rev acc)) s \<lparr>mode := Mid\<rparr>)
             else Some (s\<lparr>mode := InStr3 acc (Suc q)\<rparr>))
          else if c = BACKSLASH then None
          else Some (s\<lparr>mode := InStr3 (c # replicate q DQ @ acc) 0,
                       line := (if c = LF then Suc (line s) else line s)\<rparr>))"

fun lex_chars :: "lexer \<Rightarrow> string \<Rightarrow> lexer option" where
  "lex_chars s [] = Some s"
| "lex_chars s (c # cs) =
     (case lex_step s c of None \<Rightarrow> None | Some s' \<Rightarrow> lex_chars s' cs)"

text \<open>
  The end of the text. A last line without a line feed is ended as if it had one, so that
  \<open>ENDMARKER\<close> always stands on the line after the last one; an open string or bracket is
  an error.
\<close>

definition close_file :: "bool \<Rightarrow> lexer \<Rightarrow> (nat \<times> nat \<times> token) list option" where
  "close_file pending s =
     (if depth s \<noteq> 0 then None
      else let s1 = s\<lparr>tstart := line s\<rparr>;
               s2 = (if pending
                     then (emit (if logical s then NEWLINE else NL) s1)
                            \<lparr>line := Suc (line s), tstart := Suc (line s)\<rparr>
                     else s1)
           in Some (rev (out (emit ENDMARKER s2))))"

definition lex_finish :: "lexer \<Rightarrow> (nat \<times> nat \<times> token) list option" where
  "lex_finish s =
     (case mode s of
        LineStart w \<Rightarrow> close_file False s
      | Mid \<Rightarrow> close_file True s
      | InName acc \<Rightarrow> close_file True (emit (NAME (rev acc)) s)
      | InComment acc \<Rightarrow> close_file True (emit (COMMENT (rev acc)) s)
      | Quote2 \<Rightarrow> close_file True (emit (STRING []) s)
      | Quote1 \<Rightarrow> None
      | InStr1 acc \<Rightarrow> None
      | InStr3 acc q \<Rightarrow> None)"

definition tokenize :: "string \<Rightarrow> (nat \<times> nat \<times> token) list option" where
  "tokenize src =
     (case lex_chars lexer0 src of None \<Rightarrow> None | Some s \<Rightarrow> lex_finish s)"

section \<open>Physical lines\<close>

text \<open>
  The number of physical lines of a text, and the kind of each: blank, holding only a
  comment, lying inside string literals only, or holding code. The kind is read off the
  tokens that cover the line, line ends left aside.
\<close>

definition line_count :: "string \<Rightarrow> nat" where
  "line_count src =
     (if src = [] then 0
      else count_list src LF + (if last src = LF then 0 else 1))"

datatype line_kind = BlankLine | CommentLine | StringLine | CodeLine

fun is_layout :: "token \<Rightarrow> bool" where
  "is_layout NEWLINE = True"
| "is_layout NL = True"
| "is_layout ENDMARKER = True"
| "is_layout t = False"

fun is_comment :: "token \<Rightarrow> bool" where
  "is_comment (COMMENT c) = True"
| "is_comment t = False"

fun is_string :: "token \<Rightarrow> bool" where
  "is_string (STRING c) = True"
| "is_string t = False"

definition tokens_on :: "(nat \<times> nat \<times> token) list \<Rightarrow> nat \<Rightarrow> token list" where
  "tokens_on ts l =
     map (\<lambda>(a, b, t). t)
       (filter (\<lambda>(a, b, t). a \<le> l \<and> l \<le> b \<and> \<not> is_layout t) ts)"

definition kind_of :: "token list \<Rightarrow> line_kind" where
  "kind_of ts =
     (if ts = [] then BlankLine
      else if list_all is_comment ts then CommentLine
      else if list_all is_string ts then StringLine
      else CodeLine)"

definition line_kinds :: "string \<Rightarrow> line_kind list option" where
  "line_kinds src =
     (case tokenize src of
        None \<Rightarrow> None
      | Some ts \<Rightarrow> Some (map (\<lambda>l. kind_of (tokens_on ts l)) [1 ..< Suc (line_count src)]))"

text \<open>The kind of line number \<open>l\<close>, counted from 1; \<open>None\<close> when the text has no such line.\<close>

definition kind_of_line :: "string \<Rightarrow> nat \<Rightarrow> line_kind option" where
  "kind_of_line src l =
     (case tokenize src of
        None \<Rightarrow> None
      | Some ts \<Rightarrow>
          if 1 \<le> l \<and> l \<le> line_count src then Some (kind_of (tokens_on ts l)) else None)"

text \<open>The lines on which each string literal starts and ends.\<close>

definition string_spans :: "string \<Rightarrow> (nat \<times> nat) list option" where
  "string_spans src =
     (case tokenize src of
        None \<Rightarrow> None
      | Some ts \<Rightarrow> Some (map (\<lambda>(a, b, t). (a, b)) (filter (\<lambda>(a, b, t). is_string t) ts)))"

section \<open>Abstract syntax and parsing\<close>

text \<open>
  The statements of the model: an expression statement, an assignment to a name, the
  import of a module, and \<open>pass\<close>. Expressions are string literals, names, and calls of a
  name with arguments. A logical line of any other shape makes the parser return
  \<open>None\<close>.
\<close>

datatype expr =
    Str string
  | Name string
  | Call string "expr list"

datatype stmt =
    Expr expr
  | Assign string expr
  | Import string
  | Pass

definition py_keywords :: "string list" where
  "py_keywords = [''False'', ''None'', ''True'', ''and'', ''as'', ''assert'', ''async'',
     ''await'', ''break'', ''class'', ''continue'', ''def'', ''del'', ''elif'', ''else'',
     ''except'', ''finally'', ''for'', ''from'', ''global'', ''if'', ''import'', ''in'',
     ''is'', ''lambda'', ''nonlocal'', ''not'', ''or'', ''pass'', ''raise'', ''return'',
     ''try'', ''while'', ''with'', ''yield'']"

text \<open>The tokens the parser sees: comments and \<open>NL\<close> dropped, line numbers forgotten.\<close>

fun is_significant :: "token \<Rightarrow> bool" where
  "is_significant (COMMENT c) = False"
| "is_significant NL = False"
| "is_significant t = True"

definition significant :: "(nat \<times> nat \<times> token) list \<Rightarrow> token list" where
  "significant ts = filter is_significant (map (\<lambda>(a, b, t). t) ts)"

text \<open>The logical lines: the tokens between two \<open>NEWLINE\<close>s, up to \<open>ENDMARKER\<close>.\<close>

fun logical_lines :: "token list \<Rightarrow> token list \<Rightarrow> token list list" where
  "logical_lines cur [] = (if cur = [] then [] else [rev cur])"
| "logical_lines cur (t # ts) =
     (if t = NEWLINE then rev cur # logical_lines [] ts
      else if t = ENDMARKER then logical_lines cur []
      else logical_lines (t # cur) ts)"

fun parse_atom :: "token \<Rightarrow> expr option" where
  "parse_atom (STRING s) = Some (Str s)"
| "parse_atom (NAME n) = (if n \<in> set py_keywords then None else Some (Name n))"
| "parse_atom t = None"

text \<open>The arguments of a call, after the opening bracket, up to the closing one.\<close>

fun parse_args :: "token list \<Rightarrow> (expr list \<times> token list) option" where
  "parse_args [] = None"
| "parse_args [t] = (if t = OP (CHR '')'') then Some ([], []) else None)"
| "parse_args (t # u # ts) =
     (if t = OP (CHR '')'') then Some ([], u # ts)
      else case parse_atom t of
        None \<Rightarrow> None
      | Some a \<Rightarrow>
          if u = OP (CHR '')'') then Some ([a], ts)
          else if u = OP (CHR '','') then
            (case parse_args ts of
               None \<Rightarrow> None
             | Some (as, rest) \<Rightarrow> Some (a # as, rest))
          else None)"

definition parse_line :: "token list \<Rightarrow> stmt option" where
  "parse_line ts =
     (case ts of
        [STRING s] \<Rightarrow> Some (Expr (Str s))
      | [NAME n] \<Rightarrow>
          if n = ''pass'' then Some Pass
          else if n \<in> set py_keywords then None
          else Some (Expr (Name n))
      | [NAME k, NAME m] \<Rightarrow>
          if k = ''import'' \<and> m \<notin> set py_keywords then Some (Import m) else None
      | NAME n # OP c # rest \<Rightarrow>
          if n \<in> set py_keywords then None
          else if c = CHR ''='' then
            (case rest of
               [t] \<Rightarrow> (case parse_atom t of None \<Rightarrow> None | Some e \<Rightarrow> Some (Assign n e))
             | _ \<Rightarrow> None)
          else if c = CHR ''('' then
            (case parse_args rest of
               Some (as, []) \<Rightarrow> Some (Expr (Call n as))
             | _ \<Rightarrow> None)
          else None
      | _ \<Rightarrow> None)"

fun parse_lines :: "token list list \<Rightarrow> stmt list option" where
  "parse_lines [] = Some []"
| "parse_lines (l # ls) =
     (case parse_line l of
        None \<Rightarrow> None
      | Some s \<Rightarrow> (case parse_lines ls of None \<Rightarrow> None | Some ss \<Rightarrow> Some (s # ss)))"

definition parse_module :: "string \<Rightarrow> stmt list option" where
  "parse_module src =
     (case tokenize src of
        None \<Rightarrow> None
      | Some ts \<Rightarrow> parse_lines (logical_lines [] (significant ts)))"

text \<open>The tokens of a text that the parser sees.\<close>

definition code_tokens :: "string \<Rightarrow> token list option" where
  "code_tokens src =
     (case tokenize src of None \<Rightarrow> None | Some ts \<Rightarrow> Some (significant ts))"

text \<open>The modules a program imports and the names it calls, in the order of the text.\<close>

fun calls_of_expr :: "expr \<Rightarrow> string list" where
  "calls_of_expr (Str s) = []"
| "calls_of_expr (Name n) = []"
| "calls_of_expr (Call f as) = f # concat (map calls_of_expr as)"

fun calls_of_stmt :: "stmt \<Rightarrow> string list" where
  "calls_of_stmt (Expr e) = calls_of_expr e"
| "calls_of_stmt (Assign n e) = calls_of_expr e"
| "calls_of_stmt (Import m) = []"
| "calls_of_stmt Pass = []"

fun imports_of_stmt :: "stmt \<Rightarrow> string list" where
  "imports_of_stmt (Import m) = [m]"
| "imports_of_stmt s = []"

definition calls_of :: "stmt list \<Rightarrow> string list" where
  "calls_of m = concat (map calls_of_stmt m)"

definition imports_of :: "stmt list \<Rightarrow> string list" where
  "imports_of m = concat (map imports_of_stmt m)"

section \<open>Execution\<close>

text \<open>
  A state is the namespace of the module (\<open>globals\<close>) and the world outside it. Of the
  world the model keeps what a statement of the modelled language can depend on or change:
  the names of the built-in callables, the modules that can be imported, and the trace of
  the effects performed so far. Apart from binding names in the module's namespace, a
  Python program acts on the world (files, network, databases, other modules) only by
  importing modules and calling functions, and both are recorded in the trace.

  Errors are values: a run returns \<open>Inl\<close> of an error or \<open>Inr\<close> of the final state.
\<close>

datatype pyval = VNone | VStr string | VModule string | VBuiltin string

datatype error =
    ParseError
  | NameError string
  | ModuleNotFoundError string
  | TypeError string

datatype effect = Imported string | Called string "pyval list"

record world =
  builtin_names :: "string list"
  importable :: "string list"
  effects :: "effect list"

record pystate =
  globals :: "string \<rightharpoonup> pyval"
  world :: world

definition bind_name :: "string \<Rightarrow> pyval \<Rightarrow> pystate \<Rightarrow> pystate" where
  "bind_name n v st = st\<lparr>globals := (globals st)(n \<mapsto> v)\<rparr>"

definition perform :: "effect \<Rightarrow> pystate \<Rightarrow> pystate" where
  "perform e st = st\<lparr>world := (world st)\<lparr>effects := effects (world st) @ [e]\<rparr>\<rparr>"

definition lookup_name :: "string \<Rightarrow> pystate \<Rightarrow> pyval option" where
  "lookup_name n st =
     (case globals st n of
        Some v \<Rightarrow> Some v
      | None \<Rightarrow> if n \<in> set (builtin_names (world st)) then Some (VBuiltin n) else None)"

fun eval :: "expr \<Rightarrow> pystate \<Rightarrow> error + (pyval \<times> pystate)"
  and eval_args :: "expr list \<Rightarrow> pystate \<Rightarrow> error + (pyval list \<times> pystate)" where
  "eval (Str s) st = Inr (VStr s, st)"
| "eval (Name n) st =
     (case lookup_name n st of None \<Rightarrow> Inl (NameError n) | Some v \<Rightarrow> Inr (v, st))"
| "eval (Call f as) st =
     (case lookup_name f st of
        None \<Rightarrow> Inl (NameError f)
      | Some fv \<Rightarrow>
          (case eval_args as st of
             Inl e \<Rightarrow> Inl e
           | Inr (vs, st1) \<Rightarrow>
               (case fv of
                  VBuiltin b \<Rightarrow> Inr (VNone, perform (Called b vs) st1)
                | _ \<Rightarrow> Inl (TypeError f))))"
| "eval_args [] st = Inr ([], st)"
| "eval_args (a # as) st =
     (case eval a st of
        Inl e \<Rightarrow> Inl e
      | Inr (v, st1) \<Rightarrow>
          (case eval_args as st1 of
             Inl e \<Rightarrow> Inl e
           | Inr (vs, st2) \<Rightarrow> Inr (v # vs, st2)))"

fun exec_stmt :: "stmt \<Rightarrow> pystate \<Rightarrow> error + pystate" where
  "exec_stmt (Expr e) st =
     (case eval e st of Inl err \<Rightarrow> Inl err | Inr (v, st1) \<Rightarrow> Inr st1)"
| "exec_stmt (Assign n e) st =
     (case eval e st of Inl err \<Rightarrow> Inl err | Inr (v, st1) \<Rightarrow> Inr (bind_name n v st1))"
| "exec_stmt (Import m) st =
     (if m \<in> set (importable (world st))
      then Inr (bind_name m (VModule m) (perform (Imported m) st))
      else Inl (ModuleNotFoundError m))"
| "exec_stmt Pass st = Inr st"

fun exec_stmts :: "stmt list \<Rightarrow> pystate \<Rightarrow> error + pystate" where
  "exec_stmts [] st = Inr st"
| "exec_stmts (s # ss) st =
     (case exec_stmt s st of Inl err \<Rightarrow> Inl err | Inr st1 \<Rightarrow> exec_stmts ss st1)"

text \<open>
  A module whose first statement is a string literal has that string bound to \<open>__doc__\<close>;
  the literal is not evaluated as a statement again. The rest of the statements is the
  body that is executed.
\<close>

definition docstring_of :: "stmt list \<Rightarrow> string option" where
  "docstring_of m = (case m of Expr (Str d) # rest \<Rightarrow> Some d | _ \<Rightarrow> None)"

definition module_body :: "stmt list \<Rightarrow> stmt list" where
  "module_body m = (case m of Expr (Str d) # rest \<Rightarrow> rest | _ \<Rightarrow> m)"

definition exec_module :: "stmt list \<Rightarrow> pystate \<Rightarrow> error + pystate" where
  "exec_module m st =
     exec_stmts (module_body m)
       (case docstring_of m of
          None \<Rightarrow> st
        | Some d \<Rightarrow> bind_name ''__doc__'' (VStr d) st)"

definition run_source :: "string \<Rightarrow> pystate \<Rightarrow> error + pystate" where
  "run_source src st =
     (case parse_module src of None \<Rightarrow> Inl ParseError | Some m \<Rightarrow> exec_module m st)"

text \<open>
  The namespace of a module executed in a world \<open>w\<close>, from an empty namespace: the names
  that the text of the module itself binds.
\<close>

definition module_state :: "string \<Rightarrow> world \<Rightarrow> error + (string \<rightharpoonup> pyval)" where
  "module_state src w =
     (case run_source src \<lparr>globals = Map.empty, world = w\<rparr> of
        Inl err \<Rightarrow> Inl err
      | Inr st \<Rightarrow> Inr (globals st))"

text \<open>
  The optimisation level of the interpreter is part of the environment of a run: 0 by
  default, 1 under \<open>-O\<close>, 2 under \<open>-OO\<close> or \<open>PYTHONOPTIMIZE=2\<close>. At level 2 the
  compiler drops docstrings: a leading string literal is then an expression statement like
  any other and \<open>__doc__\<close> is not bound. Below level 2 a run is \<open>exec_module\<close>.
\<close>

definition exec_module_at :: "nat \<Rightarrow> stmt list \<Rightarrow> pystate \<Rightarrow> error + pystate" where
  "exec_module_at level m st = (if level < 2 then exec_module m st else exec_stmts m st)"

definition run_source_at :: "nat \<Rightarrow> string \<Rightarrow> pystate \<Rightarrow> error + pystate" where
  "run_source_at level src st =
     (case parse_module src of
        None \<Rightarrow> Inl ParseError
      | Some m \<Rightarrow> exec_module_at level m st)"

text \<open>The value bound to a name after a run; \<open>None\<close> when unbound or when the run failed.\<close>

definition lookup_after :: "string \<Rightarrow> error + pystate \<Rightarrow> pyval option" where
  "lookup_after n r = (case r of Inl err \<Rightarrow> None | Inr st \<Rightarrow> globals st n)"

text \<open>
  Two states a run of the file starts from: as a script (\<open>python flow.py\<close>), where the
  interpreter has preset \<open>__name__\<close> to \<open>__main__\<close>, and as an imported module
  (\<open>import flow\<close>), where it has preset \<open>__name__\<close> to the name of the module.
\<close>

definition bare_world :: world where
  "bare_world = \<lparr>builtin_names = [], importable = [], effects = []\<rparr>"

definition script_start :: pystate where
  "script_start = \<lparr>globals = [''__name__'' \<mapsto> VStr ''__main__''], world = bare_world\<rparr>"

definition import_start :: pystate where
  "import_start = \<lparr>globals = [''__name__'' \<mapsto> VStr ''flow''], world = bare_world\<rparr>"

text \<open>
  The program that the specification compares the file with: the empty program, extended
  with the assignment of the docstring.
\<close>

definition empty_program :: "stmt list" where
  "empty_program = []"

definition docstring_only :: "string \<Rightarrow> pystate \<Rightarrow> error + pystate" where
  "docstring_only d st = exec_stmts (empty_program @ [Assign ''__doc__'' (Str d)]) st"

text \<open>The row fields named in the comments of lines 22 to 32.\<close>

definition row_fields :: "string list" where
  "row_fields = [''chain'', ''protocol'', ''market'', ''tvl_usd'', ''liquidity_usd'',
     ''price_vol_5m_bps'', ''borrow_utilization_bps'', ''source_url'', ''updated_at'']"

section \<open>The tokens of the file\<close>

text \<open>
  What the tokenizer makes of a block of comment lines starting at line \<open>k\<close>: for each
  line a comment and an \<open>NL\<close>. A comment line here starts with \<open>#\<close> in its first column.
\<close>

fun comment_tokens :: "nat \<Rightarrow> string list \<Rightarrow> (nat \<times> nat \<times> token) list" where
  "comment_tokens k [] = []"
| "comment_tokens k (l # ls) = (k, k, COMMENT l) # (k, k, NL) # comment_tokens (Suc k) ls"

definition comment_line :: "string \<Rightarrow> bool" where
  "comment_line l = (case l of [] \<Rightarrow> False | c # cs \<Rightarrow> c = CHR ''#'' \<and> LF \<notin> set cs)"

text \<open>
  The tokens of \<open>flow.py\<close>: the docstring on lines 1 to 10, the end of its logical line,
  the blank line 11, the comments of lines 12 to 38, and the end marker after them.
\<close>

definition flow_tokens :: "(nat \<times> nat \<times> token) list" where
  "flow_tokens = (1, 10, STRING placeholder_doc) # (10, 10, NEWLINE) # (11, 11, NL) #
     comment_tokens 12 (drop 11 flow_py_lines) @ [(39, 39, ENDMARKER)]"

section \<open>Properties of the tokenizer\<close>

lemma lex_chars_append:
  "lex_chars s (a @ b) = (case lex_chars s a of None \<Rightarrow> None | Some s' \<Rightarrow> lex_chars s' b)"
  by (induction a arbitrary: s) (auto split: option.splits)

lemma lex_in_comment:
  "LF \<notin> set cs \<Longrightarrow> mode s = InComment acc \<Longrightarrow>
   lex_chars s cs = Some (s\<lparr>mode := InComment (rev cs @ acc)\<rparr>)"
proof (induction cs arbitrary: s acc)
  case Nil
  then show ?case by simp
next
  case (Cons c cs)
  from Cons.prems have "c \<noteq> LF" by auto
  with Cons.prems have step: "lex_step s c = Some (s\<lparr>mode := InComment (c # acc)\<rparr>)"
    by (simp add: lex_step_def)
  from Cons.prems have "LF \<notin> set cs" by simp
  from Cons.IH [OF this, of "s\<lparr>mode := InComment (c # acc)\<rparr>" "c # acc"]
  show ?case using step by simp
qed

lemma lex_in_string:
  "DQ \<notin> set cs \<Longrightarrow> BACKSLASH \<notin> set cs \<Longrightarrow> mode s = InStr3 acc 0 \<Longrightarrow>
   lex_chars s cs =
     Some (s\<lparr>mode := InStr3 (rev cs @ acc) 0, line := line s + count_list cs LF\<rparr>)"
proof (induction cs arbitrary: s acc)
  case Nil
  then show ?case by simp
next
  case (Cons c cs)
  let ?s = "s\<lparr>mode := InStr3 (c # acc) 0, line := (if c = LF then Suc (line s) else line s)\<rparr>"
  from Cons.prems have "c \<noteq> DQ" "c \<noteq> BACKSLASH" by auto
  with Cons.prems have step: "lex_step s c = Some ?s"
    by (simp add: lex_step_def)
  from Cons.prems have "DQ \<notin> set cs" "BACKSLASH \<notin> set cs" by simp_all
  from Cons.IH [OF this, of ?s "c # acc"]
  show ?case using step by simp
qed

lemma lex_comment_line:
  assumes "comment_line l"
  shows "lex_chars \<lparr>mode = LineStart False, line = k, tstart = t, depth = 0,
            logical = False, out = ou\<rparr> l =
         Some \<lparr>mode = InComment (rev l), line = k, tstart = k, depth = 0,
            logical = False, out = ou\<rparr>"
proof -
  from assms obtain cs where l: "l = CHR ''#'' # cs" and cs: "LF \<notin> set cs"
    by (auto simp: comment_line_def split: list.splits)
  have "lex_step \<lparr>mode = LineStart False, line = k, tstart = t, depth = 0,
            logical = False, out = ou\<rparr> (CHR ''#'') =
        Some \<lparr>mode = InComment [CHR ''#''], line = k, tstart = k, depth = 0,
            logical = False, out = ou\<rparr>"
    by (simp add: lex_step_def between_def start_token_def is_space_def LF_def)
  then show ?thesis
    using lex_in_comment [OF cs, of "\<lparr>mode = InComment [CHR ''#''], line = k, tstart = k,
       depth = 0, logical = False, out = ou\<rparr>" "[CHR ''#'']"]
    by (simp add: l)
qed

lemma lex_comment_lines:
  "list_all comment_line ls \<Longrightarrow> ls \<noteq> [] \<Longrightarrow>
   lex_chars \<lparr>mode = LineStart False, line = k, tstart = t, depth = 0,
            logical = False, out = ou\<rparr> (join_lines ls) =
   Some \<lparr>mode = InComment (rev (last ls)), line = k + length ls - 1,
            tstart = k + length ls - 1, depth = 0, logical = False,
            out = rev (comment_tokens k (butlast ls)) @ ou\<rparr>"
proof (induction ls arbitrary: k t ou rule: join_lines.induct)
  case 1
  then show ?case by simp
next
  case (2 l)
  then show ?case by (simp add: lex_comment_line)
next
  case (3 l m ls)
  from "3.prems" have cl: "comment_line l" and rest: "list_all comment_line (m # ls)"
    by simp_all
  have nl: "lex_step \<lparr>mode = InComment (rev l), line = k, tstart = k, depth = 0,
            logical = False, out = ou\<rparr> LF =
        Some \<lparr>mode = LineStart False, line = Suc k, tstart = k, depth = 0,
            logical = False, out = (k, k, NL) # (k, k, COMMENT l) # ou\<rparr>"
    by (simp add: lex_step_def end_line_def emit_def)
  show ?case
    using "3.IH" [OF rest, of "Suc k" k "(k, k, NL) # (k, k, COMMENT l) # ou"]
    by (simp add: lex_chars_append lex_comment_line [OF cl] nl)
qed


lemma comment_tokens_snoc:
  "ls \<noteq> [] \<Longrightarrow>
   comment_tokens k (butlast ls) @
     [(k + length ls - 1, k + length ls - 1, COMMENT (last ls)),
      (k + length ls - 1, k + length ls - 1, NL)] = comment_tokens k ls"
proof (induction ls arbitrary: k)
  case Nil
  then show ?case by simp
next
  case (Cons l ls)
  show ?case
  proof (cases "ls = []")
    case True
    then show ?thesis by simp
  next
    case False
    with Cons.IH [of "Suc k"] show ?thesis by simp
  qed
qed

lemma flow_py_split:
  "flow_py = [DQ, DQ, DQ] @ placeholder_doc @ [DQ, DQ, DQ, LF, LF] @
     join_lines (drop 11 flow_py_lines)"
  by (simp add: flow_py_def flow_py_lines_def placeholder_doc_def DQ_def LF_def)

lemma doc_chars:
  "DQ \<notin> set placeholder_doc" "BACKSLASH \<notin> set placeholder_doc"
  "count_list placeholder_doc LF = 9"
  by (simp_all add: placeholder_doc_def DQ_def BACKSLASH_def LF_def)

lemma comment_block:
  "list_all comment_line (drop 11 flow_py_lines)" "length (drop 11 flow_py_lines) = 27"
  by (simp_all add: flow_py_lines_def comment_line_def LF_def)

lemma lex_open:
  "lex_chars lexer0 [DQ, DQ, DQ] =
     Some \<lparr>mode = InStr3 [] 0, line = 1, tstart = 1, depth = 0, logical = True, out = []\<rparr>"
  by (simp add: lexer0_def lex_step_def between_def start_token_def is_space_def
      DQ_def LF_def)

lemma lex_close:
  "lex_chars \<lparr>mode = InStr3 acc 0, line = k, tstart = t, depth = 0, logical = True,
       out = ou\<rparr> [DQ, DQ, DQ, LF, LF] =
     Some \<lparr>mode = LineStart False, line = Suc (Suc k), tstart = Suc k, depth = 0,
       logical = False,
       out = (Suc k, Suc k, NL) # (k, k, NEWLINE) # (t, k, STRING (rev acc)) # ou\<rparr>"
  by (simp add: lex_step_def between_def end_line_def emit_def)

lemma flow_py_tokens: "tokenize flow_py = Some flow_tokens"
proof -
  let ?cl = "drop 11 flow_py_lines"
  have ne: "?cl \<noteq> []" using comment_block(2) by auto
  have a: "lex_chars lexer0 ([DQ, DQ, DQ] @ placeholder_doc) =
     Some \<lparr>mode = InStr3 (rev placeholder_doc) 0, line = 10, tstart = 1, depth = 0,
       logical = True, out = []\<rparr>"
    using lex_in_string [OF doc_chars(1) doc_chars(2), of
        "\<lparr>mode = InStr3 [] 0, line = 1, tstart = 1, depth = 0, logical = True, out = []\<rparr>" "[]"]
    by (simp only: lex_chars_append lex_open option.case) (simp add: doc_chars(3))
  have b: "lex_chars lexer0 ([DQ, DQ, DQ] @ placeholder_doc @ [DQ, DQ, DQ, LF, LF]) =
     Some \<lparr>mode = LineStart False, line = 12, tstart = 11, depth = 0, logical = False,
       out = [(11, 11, NL), (10, 10, NEWLINE), (1, 10, STRING placeholder_doc)]\<rparr>"
    using a lex_close [of "rev placeholder_doc" 10 1 "[]"]
    by (simp only: lex_chars_append append_assoc [symmetric] option.case) simp
  have c: "lex_chars lexer0 flow_py =
     Some \<lparr>mode = InComment (rev (last ?cl)), line = 38, tstart = 38, depth = 0,
       logical = False,
       out = rev (comment_tokens 12 (butlast ?cl)) @
         [(11, 11, NL), (10, 10, NEWLINE), (1, 10, STRING placeholder_doc)]\<rparr>"
    using b lex_comment_lines [OF comment_block(1) ne, of 12 11
        "[(11, 11, NL), (10, 10, NEWLINE), (1, 10, STRING placeholder_doc)]"]
    by (simp only: flow_py_split lex_chars_append append_assoc [symmetric] option.case
        comment_block(2)) simp
  have d: "comment_tokens 12 (butlast ?cl) @ [(38, 38, COMMENT (last ?cl)), (38, 38, NL)] =
     comment_tokens 12 ?cl"
    using comment_tokens_snoc [OF ne, of 12] unfolding comment_block(2) by simp
  show ?thesis
    using d by (simp add: tokenize_def c lex_finish_def close_file_def emit_def flow_tokens_def)
qed


lemma significant_comment_tokens: "significant (comment_tokens k ls) = []"
  by (induction k ls rule: comment_tokens.induct) (simp_all add: significant_def)

lemma significant_append: "significant (a @ b) = significant a @ significant b"
  by (simp add: significant_def)

lemma significant_Cons:
  "significant ((a, b, t) # ts) = (if is_significant t then t # significant ts else significant ts)"
  by (simp add: significant_def)

lemma significant_Nil: "significant [] = []"
  by (simp add: significant_def)

lemma flow_py_code_tokens:
  "code_tokens flow_py = Some [STRING placeholder_doc, NEWLINE, ENDMARKER]"
  by (simp add: code_tokens_def flow_py_tokens flow_tokens_def significant_Cons
      significant_append significant_comment_tokens significant_Nil)

lemma flow_py_parses: "parse_module flow_py = Some [Expr (Str placeholder_doc)]"
proof -
  have "significant flow_tokens = [STRING placeholder_doc, NEWLINE, ENDMARKER]"
    using flow_py_code_tokens by (simp add: code_tokens_def flow_py_tokens)
  then show ?thesis
    by (simp add: parse_module_def flow_py_tokens parse_line_def)
qed

lemma count_join_lines:
  "list_all (\<lambda>l. LF \<notin> set l) ls \<Longrightarrow> count_list (join_lines ls) LF = length ls - 1"
  by (induction ls rule: join_lines.induct) (simp_all add: count_list_0_iff)

lemma join_lines_Nil_iff: "join_lines ls = [] \<longleftrightarrow> ls = [] \<or> ls = [[]]"
  by (induction ls rule: join_lines.induct) simp_all

lemma join_lines_long: "2 \<le> length ls \<Longrightarrow> join_lines ls \<noteq> []"
  by (cases ls rule: join_lines.cases) simp_all

lemma last_join_lines:
  "ls \<noteq> [] \<Longrightarrow> last ls \<noteq> [] \<Longrightarrow> last (join_lines ls) = last (last ls)"
  by (induction ls rule: join_lines.induct) (auto simp: join_lines_Nil_iff split: if_splits)

lemma flow_py_line_count: "line_count flow_py = 38"
proof -
  have a: "list_all (\<lambda>l. LF \<notin> set l) flow_py_lines"
    by (simp add: flow_py_lines_def LF_def)
  have b: "length flow_py_lines = 38" "last flow_py_lines = ''#     )''"
    by (simp_all add: flow_py_lines_def)
  have ne: "flow_py_lines \<noteq> []" using b(1) by auto
  have c: "last flow_py = CHR '')''"
    unfolding flow_py_def using last_join_lines [OF ne] b(2) by simp
  have d: "flow_py \<noteq> []"
    unfolding flow_py_def using join_lines_long [of flow_py_lines] b(1) by simp
  show ?thesis
    using count_join_lines [OF a] c d by (simp add: line_count_def flow_py_def b LF_def)
qed


lemma tokens_on_Cons:
  "tokens_on ((a, b, t) # ts) l =
     (if a \<le> l \<and> l \<le> b \<and> \<not> is_layout t then t # tokens_on ts l else tokens_on ts l)"
  by (simp add: tokens_on_def)

lemma tokens_on_Nil: "tokens_on [] l = []"
  by (simp add: tokens_on_def)

lemma tokens_on_append: "tokens_on (xs @ ys) l = tokens_on xs l @ tokens_on ys l"
  by (simp add: tokens_on_def)

lemma tokens_on_comment_tokens:
  "tokens_on (comment_tokens k ls) l =
     (if k \<le> l \<and> l < k + length ls then [COMMENT (ls ! (l - k))] else [])"
proof (induction k ls rule: comment_tokens.induct)
  case (1 k)
  then show ?case by (simp add: tokens_on_Nil)
next
  case (2 k x xs)
  show ?case
  proof (cases "l = k")
    case True
    then show ?thesis using 2 by (simp add: tokens_on_Cons)
  next
    case False
    then show ?thesis using 2 by (auto simp: tokens_on_Cons nth_Cons' Suc_diff_Suc)
  qed
qed

lemma flow_py_lines_length: "length flow_py_lines = 38"
  by (simp add: flow_py_lines_def)

lemma flow_kind:
  "kind_of (tokens_on flow_tokens l) =
     (if 1 \<le> l \<and> l \<le> 10 then StringLine
      else if 12 \<le> l \<and> l \<le> 38 then CommentLine
      else BlankLine)"
  unfolding flow_tokens_def
  by (simp add: tokens_on_Cons tokens_on_append tokens_on_Nil tokens_on_comment_tokens
      flow_py_lines_length kind_of_def)

lemma flow_py_kind_of_line:
  "kind_of_line flow_py l =
     (if 1 \<le> l \<and> l \<le> 10 then Some StringLine
      else if l = 11 then Some BlankLine
      else if 12 \<le> l \<and> l \<le> 38 then Some CommentLine
      else None)"
  by (auto simp: kind_of_line_def flow_py_tokens flow_py_line_count flow_kind)

lemma kinds_list:
  "map (\<lambda>l. if 1 \<le> l \<and> l \<le> 10 then StringLine
      else if 12 \<le> l \<and> l \<le> 38 then CommentLine
      else BlankLine) [1 ..< Suc 38] =
   replicate 10 StringLine @ BlankLine # replicate 27 CommentLine"
  by code_simp

lemma flow_py_kinds:
  "line_kinds flow_py = Some (replicate 10 StringLine @ BlankLine # replicate 27 CommentLine)"
  using kinds_list by (simp add: line_kinds_def flow_py_tokens flow_py_line_count flow_kind)

lemma string_spans_comment_tokens:
  "filter (\<lambda>(a, b, t). is_string t) (comment_tokens k ls) = []"
  by (induction k ls rule: comment_tokens.induct) simp_all

lemma flow_py_string_spans: "string_spans flow_py = Some [(1, 10)]"
  by (simp add: string_spans_def flow_py_tokens flow_tokens_def string_spans_comment_tokens)

lemma run_flow_py:
  "run_source flow_py st = Inr (bind_name ''__doc__'' (VStr placeholder_doc) st)"
  by (simp add: run_source_def flow_py_parses exec_module_def module_body_def docstring_of_def)

section \<open>The model tells programs apart\<close>

text \<open>
  The statements sketched in the comments would be seen if they were code: line 14 without
  its comment sign is an import, which fails where the module is not installed and is
  recorded in the trace where it is; a call is recorded in the trace too.
\<close>

lemma uncommented_import_parses:
  "parse_module (drop 2 (flow_py_lines ! 13)) = Some [Import ''cocoindex'']"
  by (simp add: flow_py_lines_def) code_simp

lemma uncommented_import_fails:
  "module_state ''import cocoindex'' \<lparr>builtin_names = [], importable = [], effects = []\<rparr> =
     Inl (ModuleNotFoundError ''cocoindex'')"
proof -
  have "parse_module ''import cocoindex'' = Some [Import ''cocoindex'']"
    by code_simp
  then show ?thesis
    by (simp add: module_state_def run_source_def exec_module_def module_body_def
        docstring_of_def)
qed

lemma uncommented_import_acts:
  "run_source ''import cocoindex''
     \<lparr>globals = Map.empty,
      world = \<lparr>builtin_names = [], importable = [''cocoindex''], effects = []\<rparr>\<rparr> =
   Inr \<lparr>globals = [''cocoindex'' \<mapsto> VModule ''cocoindex''],
        world = \<lparr>builtin_names = [], importable = [''cocoindex''],
                  effects = [Imported ''cocoindex'']\<rparr>\<rparr>"
proof -
  have "parse_module ''import cocoindex'' = Some [Import ''cocoindex'']"
    by code_simp
  then show ?thesis
    by (simp add: run_source_def exec_module_def module_body_def docstring_of_def
        bind_name_def perform_def)
qed

lemma call_acts:
  "run_source ''print(x)''
     \<lparr>globals = [''x'' \<mapsto> VStr ''a''],
      world = \<lparr>builtin_names = [''print''], importable = [], effects = []\<rparr>\<rparr> =
   Inr \<lparr>globals = [''x'' \<mapsto> VStr ''a''],
        world = \<lparr>builtin_names = [''print''], importable = [],
                  effects = [Called ''print'' [VStr ''a'']]\<rparr>\<rparr>"
proof -
  have "parse_module ''print(x)'' = Some [Expr (Call ''print'' [Name ''x''])]"
    by code_simp
  then show ?thesis
    by (simp add: run_source_def exec_module_def module_body_def docstring_of_def
        lookup_name_def perform_def)
qed

section \<open>The claims\<close>

lemma parse_empty: "parse_module [] = Some []"
  by (simp add: parse_module_def tokenize_def lexer0_def lex_finish_def close_file_def
      emit_def significant_def)

lemma run_flow_py_at:
  "run_source_at level flow_py st =
     Inr (if level < 2 then bind_name ''__doc__'' (VStr placeholder_doc) st else st)"
  by (simp add: run_source_at_def flow_py_parses exec_module_at_def exec_module_def
      module_body_def docstring_of_def)

lemma doc_not_row_field: "f \<in> set row_fields \<Longrightarrow> f \<noteq> ''__doc__''"
  by (auto simp: row_fields_def)

text \<open>
  C1. Executing \<open>flow.py\<close> is the same as executing the program that does nothing but bind
  the module docstring: the run of the file, as a function of the state it starts from,
  equals the run of the empty program (what the empty text parses to) extended with the
  assignment of the docstring to \<open>__doc__\<close>.
\<close>

theorem C1_docstring_only:
  "parse_module [] = Some empty_program \<and>
   run_source flow_py = docstring_only placeholder_doc"
proof
  show "parse_module [] = Some empty_program"
    by (simp add: parse_empty empty_program_def)
  show "run_source flow_py = docstring_only placeholder_doc"
  proof
    fix st
    show "run_source flow_py st = docstring_only placeholder_doc st"
      by (simp add: run_flow_py docstring_only_def empty_program_def)
  qed
qed

text \<open>
  C2, as stated: every one of the 38 lines of the file is a comment line. Line 1 is not:
  it opens the docstring, a string literal.
\<close>

theorem C2_counterexample:
  "kind_of_line flow_py 1 = Some StringLine \<and> kind_of_line flow_py 1 \<noteq> Some CommentLine"
  by (simp add: flow_py_kind_of_line)

text \<open>
  C2, amended: the file has 38 lines; lines 1 to 10 are the module docstring, one string
  literal and not a comment, line 11 is blank, and the 27 lines 12 to 38 are comment lines.
\<close>

theorem C2_line_kinds:
  "line_count flow_py = 38 \<and>
   line_kinds flow_py =
     Some (replicate 10 StringLine @ [BlankLine] @ replicate 27 CommentLine) \<and>
   string_spans flow_py = Some [(1, 10)] \<and>
   parse_module flow_py = Some [Expr (Str placeholder_doc)]"
  by (simp add: flow_py_line_count flow_py_kinds flow_py_string_spans flow_py_parses)

text \<open>
  C3. The only top-level statement of the module is the docstring literal, the one string
  literal of the file, which spans lines 1 to 10; every other line, 11 to 38, is a comment
  line or blank.
\<close>

theorem C3_docstring_and_comments:
  "parse_module flow_py = Some [Expr (Str placeholder_doc)] \<and>
   string_spans flow_py = Some [(1, 10)] \<and>
   line_count flow_py = 38 \<and>
   (\<forall>l \<in> {11 .. 38}.
      kind_of_line flow_py l = Some CommentLine \<or> kind_of_line flow_py l = Some BlankLine)"
  by (simp add: flow_py_parses flow_py_string_spans flow_py_line_count flow_py_kind_of_line)

theorem C3_docstring_and_comments_witness:
  "(11::nat) \<in> {11 .. 38} \<and>
   (kind_of_line flow_py 11 = Some CommentLine \<or> kind_of_line flow_py 11 = Some BlankLine)"
  using C3_docstring_and_comments by simp

text \<open>
  C4. Whatever state the module is executed in, the run returns a final state and never an
  error.
\<close>

theorem C4_never_fails:
  "(\<exists>st'. run_source flow_py st = Inr st') \<and> (\<forall>err. run_source flow_py st \<noteq> Inl err)"
  by (simp add: run_flow_py)

text \<open>
  C5. None of the nine row fields named in the comments is bound or stored: executing the
  module leaves the binding of each of these names as it was and the world untouched, in a
  fresh namespace none of the names exists afterwards, and none of them is even a name
  token of the code.
\<close>

theorem C5_row_fields_unbound:
  "\<exists>st' ns ts.
     run_source flow_py st = Inr st' \<and> world st' = world st \<and>
     (\<forall>f \<in> set row_fields. globals st' f = globals st f) \<and>
     module_state flow_py w = Inr ns \<and>
     (\<forall>f \<in> set row_fields. f \<notin> dom ns) \<and>
     code_tokens flow_py = Some ts \<and>
     (\<forall>f \<in> set row_fields. NAME f \<notin> set ts)"
  using doc_not_row_field
  by (auto simp: run_flow_py module_state_def bind_name_def flow_py_code_tokens)

theorem C5_row_fields_unbound_witness:
  "''tvl_usd'' \<in> set row_fields \<and>
   (\<exists>ns. module_state flow_py \<lparr>builtin_names = [], importable = [], effects = []\<rparr> = Inr ns \<and>
      ''tvl_usd'' \<notin> dom ns)"
proof -
  have m: "''tvl_usd'' \<in> set row_fields"
    by (simp add: row_fields_def)
  from C5_row_fields_unbound
    [of "\<lparr>globals = Map.empty,
          world = \<lparr>builtin_names = [], importable = [], effects = []\<rparr>\<rparr>"
        "\<lparr>builtin_names = [], importable = [], effects = []\<rparr>"]
  show ?thesis using m by blast
qed

text \<open>
  C6. The framework named in the comments is never used: the program of the file holds no
  import and no call, its code has no token but the docstring, and executing it adds
  nothing to the trace of effects, where every import and call would be recorded.
\<close>

theorem C6_no_import_no_call:
  "\<exists>m st'.
     parse_module flow_py = Some m \<and> imports_of m = [] \<and> calls_of m = [] \<and>
     code_tokens flow_py = Some [STRING placeholder_doc, NEWLINE, ENDMARKER] \<and>
     run_source flow_py st = Inr st' \<and>
     effects (world st') = effects (world st)"
  by (simp add: flow_py_parses flow_py_code_tokens run_flow_py imports_of_def calls_of_def
      bind_name_def)

text \<open>
  C7. Executing the module changes nothing outside its namespace: the world is the same
  after as before, and the namespace differs only by the binding of \<open>__doc__\<close>.
\<close>

theorem C7_frame:
  "\<exists>st'.
     run_source flow_py st = Inr st' \<and> world st' = world st \<and>
     globals st' = (globals st)(''__doc__'' \<mapsto> VStr placeholder_doc)"
  by (simp add: run_flow_py bind_name_def)

text \<open>
  C8. The file is read without failure, by the tokenizer and by the parser, and the
  program it yields has a docstring and an empty body: no statement is executed.
\<close>

theorem C8_parses_and_empty_body:
  "\<exists>ts m.
     tokenize flow_py = Some ts \<and> parse_module flow_py = Some m \<and>
     docstring_of m = Some placeholder_doc \<and> module_body m = []"
  by (simp add: flow_py_tokens flow_py_parses docstring_of_def module_body_def)

text \<open>
  C9, as stated: any two executions, in any environments, end in the same module state,
  with the same docstring value. Two pairs of runs of the file differ. At optimisation
  level 2 the docstring is dropped and \<open>__doc__\<close> is not bound, where at level 0 it is
  bound to the docstring. And the names the interpreter presets stay as they were, so a run
  as a script and a run as an imported module end with different values of \<open>__name__\<close>.
\<close>

theorem C9_counterexample:
  "lookup_after ''__doc__'' (run_source_at 0 flow_py script_start) =
     Some (VStr placeholder_doc) \<and>
   lookup_after ''__doc__'' (run_source_at 2 flow_py script_start) = None \<and>
   run_source_at 0 flow_py script_start \<noteq> run_source_at 2 flow_py script_start \<and>
   lookup_after ''__name__'' (run_source flow_py script_start) = Some (VStr ''__main__'') \<and>
   lookup_after ''__name__'' (run_source flow_py import_start) = Some (VStr ''flow'') \<and>
   run_source flow_py script_start \<noteq> run_source flow_py import_start"
proof -
  have a: "lookup_after ''__doc__'' (run_source_at 0 flow_py script_start) =
      Some (VStr placeholder_doc)"
    by (simp add: run_flow_py_at lookup_after_def bind_name_def)
  have b: "lookup_after ''__doc__'' (run_source_at 2 flow_py script_start) = None"
    by (simp add: run_flow_py_at lookup_after_def script_start_def)
  have c: "lookup_after ''__name__'' (run_source flow_py script_start) =
      Some (VStr ''__main__'')"
    by (simp add: run_flow_py lookup_after_def bind_name_def script_start_def)
  have d: "lookup_after ''__name__'' (run_source flow_py import_start) = Some (VStr ''flow'')"
    by (simp add: run_flow_py lookup_after_def bind_name_def import_start_def)
  have e: "run_source_at 0 flow_py script_start \<noteq> run_source_at 2 flow_py script_start"
  proof
    assume "run_source_at 0 flow_py script_start = run_source_at 2 flow_py script_start"
    then have "lookup_after ''__doc__'' (run_source_at 0 flow_py script_start) =
        lookup_after ''__doc__'' (run_source_at 2 flow_py script_start)"
      by simp
    with a b show False by simp
  qed
  have f: "run_source flow_py script_start \<noteq> run_source flow_py import_start"
  proof
    assume "run_source flow_py script_start = run_source flow_py import_start"
    then have "lookup_after ''__name__'' (run_source flow_py script_start) =
        lookup_after ''__name__'' (run_source flow_py import_start)"
      by simp
    with c d show False by simp
  qed
  from a b c d e f show ?thesis by blast
qed

text \<open>
  C9, amended: at a given optimisation level and from a given start namespace, executing
  the module is deterministic and independent of the world outside the namespace. The run
  always returns, and the final namespace is the start namespace with \<open>__doc__\<close> bound to
  the one fixed docstring at levels 0 and 1, and the start namespace unchanged at level 2
  or above; every name preset in the start namespace other than \<open>__doc__\<close> keeps its
  value. At the default level and from an empty namespace the module state is therefore the
  same in every world: \<open>__doc__\<close> bound to the docstring and nothing else.
\<close>

theorem C9_constant_per_level:
  "(\<exists>st1 st2.
      run_source_at level flow_py \<lparr>globals = ns, world = w1\<rparr> = Inr st1 \<and>
      run_source_at level flow_py \<lparr>globals = ns, world = w2\<rparr> = Inr st2 \<and>
      globals st1 = globals st2 \<and>
      globals st1 =
        (if level < 2 then ns(''__doc__'' \<mapsto> VStr placeholder_doc) else ns)) \<and>
   run_source_at 0 flow_py = run_source flow_py \<and>
   run_source_at 1 flow_py = run_source flow_py \<and>
   module_state flow_py w1 = module_state flow_py w2 \<and>
   module_state flow_py w1 = Inr [''__doc__'' \<mapsto> VStr placeholder_doc]"
proof -
  have eq: "run_source_at l flow_py = run_source flow_py" if "l < 2" for l
  proof
    fix st
    show "run_source_at l flow_py st = run_source flow_py st"
      using that by (simp add: run_flow_py_at run_flow_py)
  qed
  have "run_source_at 0 flow_py = run_source flow_py"
    and "run_source_at 1 flow_py = run_source flow_py"
    using eq [of 0] eq [of 1] by simp_all
  then show ?thesis
    by (simp add: run_flow_py_at module_state_def run_flow_py bind_name_def)
qed

text \<open>
  C10. Executing the module binds no function, class or variable: the namespace of the
  module holds the name \<open>__doc__\<close> and no other, in particular not \<open>flow\<close>; and from
  whatever namespace the run starts, every name other than \<open>__doc__\<close> is bound
  afterwards exactly as before.
\<close>

theorem C10_binds_only_doc:
  "\<exists>ns st'.
     module_state flow_py w = Inr ns \<and> dom ns = {''__doc__''} \<and> ''flow'' \<notin> dom ns \<and>
     run_source flow_py st = Inr st' \<and>
     (\<forall>n. n \<noteq> ''__doc__'' \<longrightarrow> globals st' n = globals st n)"
  by (simp add: module_state_def run_flow_py bind_name_def)

theorem C10_binds_only_doc_witness:
  "''flow'' \<noteq> ''__doc__'' \<and>
   (\<exists>st'. run_source flow_py
       \<lparr>globals = Map.empty,
        world = \<lparr>builtin_names = [], importable = [], effects = []\<rparr>\<rparr> = Inr st' \<and>
      globals st' ''flow'' = None)"
proof -
  have n: "''flow'' \<noteq> ''__doc__''" by simp
  from C10_binds_only_doc
    [of "\<lparr>builtin_names = [], importable = [], effects = []\<rparr>"
        "\<lparr>globals = Map.empty,
          world = \<lparr>builtin_names = [], importable = [], effects = []\<rparr>\<rparr>"]
  obtain st' where
    r: "run_source flow_py
          \<lparr>globals = Map.empty,
           world = \<lparr>builtin_names = [], importable = [], effects = []\<rparr>\<rparr> = Inr st'"
    and f: "\<forall>n. n \<noteq> ''__doc__'' \<longrightarrow>
          globals st' n =
          globals \<lparr>globals = Map.empty,
            world = \<lparr>builtin_names = [], importable = [], effects = []\<rparr>\<rparr> n"
    by blast
  from f n have "globals st' ''flow'' = None" by simp
  with r n show ?thesis by blast
qed

end
